theory Spec2Isabelle
  imports Main
begin

section \<open>Python values, exceptions and strings\<close>

text \<open>
  The pipeline moves JSON data between a generative model, the stage operations of
  \<^verbatim>\<open>StoryImageGenerator\<close> and the Flask handlers. A value that \<^verbatim>\<open>json.loads\<close> or
  \<^verbatim>\<open>request.get_json\<close> can produce is a \<open>json\<close>; Python's \<^verbatim>\<open>None\<close> is \<open>JNull\<close>, a
  \<^verbatim>\<open>dict\<close> is an association list in insertion order (keys distinct, as in a Python
  dict). Floating-point numbers are left out: no operation of the pipeline inspects a
  number. Strings are byte lists; the operations modelled here look only for the ASCII
  characters \<^verbatim>\<open>{\<close>, \<^verbatim>\<open>}\<close> and the space.
\<close>

datatype json =
    JNull
  | JBool bool
  | JInt int
  | JStr string
  | JArr "json list"
  | JObj "(string \<times> json) list"

text \<open>Python's truth value of an object, as \<^verbatim>\<open>if result\<close> and \<^verbatim>\<open>not data\<close> read it.\<close>

fun truthy :: "json \<Rightarrow> bool" where
  "truthy JNull = False"
| "truthy (JBool b) = b"
| "truthy (JInt i) = (i \<noteq> 0)"
| "truthy (JStr s) = (s \<noteq> [])"
| "truthy (JArr xs) = (xs \<noteq> [])"
| "truthy (JObj kvs) = (kvs \<noteq> [])"

text \<open>
  The exceptions the code names or can meet. \<open>OtherException\<close> stands for whatever else a
  collaborator raises (a transport error, a quota error, ...). A computation that can
  raise returns \<open>exn + 'a\<close>, with \<open>Inl\<close> the exception that leaves it.
\<close>

datatype exn =
    JSONDecodeError
  | IndexError
  | KeyError
  | TypeError
  | AttributeError
  | UnboundLocalError
  | OtherException string

text \<open>
  \<^verbatim>\<open>s.find(c)\<close> and \<^verbatim>\<open>s.rfind(c)\<close> for a needle of one character: the index of the first
  (last) occurrence, or \<open>-1\<close>.
\<close>

definition str_find :: "string \<Rightarrow> char \<Rightarrow> int" where
  "str_find s c =
     (if c \<in> set s then int (length (takeWhile (\<lambda>x. x \<noteq> c) s)) else - 1)"

definition str_rfind :: "string \<Rightarrow> char \<Rightarrow> int" where
  "str_rfind s c =
     (if c \<in> set s
      then int (length s) - 1 - int (length (takeWhile (\<lambda>x. x \<noteq> c) (rev s)))
      else - 1)"

text \<open>
  \<^verbatim>\<open>s[i:j]\<close>: a negative bound counts from the end, and both bounds are clamped to the
  string; the slice is empty when the bounds cross. Slicing never raises.
\<close>

definition slice_bound :: "nat \<Rightarrow> int \<Rightarrow> nat" where
  "slice_bound n i = (if i < 0 then nat (max (i + int n) 0) else min (nat i) n)"

definition py_slice :: "'a list \<Rightarrow> int \<Rightarrow> int \<Rightarrow> 'a list" where
  "py_slice s i j =
     (let lo = slice_bound (length s) i; hi = slice_bound (length s) j
      in take (hi - lo) (drop lo s))"

text \<open>
  The text handed to \<^verbatim>\<open>json.loads\<close> by every stage that reads a contract:
  \<^verbatim>\<open>response_text[response_text.find("{"):response_text.rfind("}") + 1]\<close>.
\<close>

definition contract_text :: "string \<Rightarrow> string" where
  "contract_text response_text =
     (let start = str_find response_text (CHR ''{'');
          end' = str_rfind response_text (CHR ''}'') + 1
      in py_slice response_text start end')"

section \<open>The story stage\<close>

text \<open>
  \<^verbatim>\<open>generate_story_and_characters\<close> (the same body in \<^verbatim>\<open>story_generator.py\<close>,
  \<^verbatim>\<open>Story-2.py\<close>, \<^verbatim>\<open>Story3.py\<close> and \<^verbatim>\<open>image_generation.py\<close>). The two collaborators are
  parameters: \<open>story_chain\<close> is \<^verbatim>\<open>self.story_chain.invoke\<close>, which returns the model's text
  or raises, and \<open>json_loads\<close> is \<^verbatim>\<open>json.loads\<close>. The call of the chain stands before the
  \<^verbatim>\<open>try\<close>, so what it raises leaves the operation; the \<^verbatim>\<open>except\<close> clause catches
  \<^verbatim>\<open>JSONDecodeError\<close> and \<^verbatim>\<open>IndexError\<close> only, and returns \<^verbatim>\<open>None\<close>.
\<close>

definition generate_story_and_characters ::
  "(string \<Rightarrow> exn + json) \<Rightarrow> (json \<Rightarrow> json \<Rightarrow> json \<Rightarrow> exn + string) \<Rightarrow>
   json \<Rightarrow> json \<Rightarrow> json \<Rightarrow> exn + json" where
  "generate_story_and_characters json_loads story_chain topic description style =
     (case story_chain topic description style of
        Inl e \<Rightarrow> Inl e
      | Inr response_text \<Rightarrow>
          (case json_loads (contract_text response_text) of
             Inr story_data \<Rightarrow> Inr story_data
           | Inl e \<Rightarrow>
               if e = JSONDecodeError \<or> e = IndexError then Inr JNull else Inl e))"

text \<open>
  \<^verbatim>\<open>generate_scene_descriptions\<close> of \<^verbatim>\<open>Story-2.py\<close> (and, with the same control flow,
  of \<^verbatim>\<open>story_generator.py\<close>): here the call of the chain stands inside the \<^verbatim>\<open>try\<close>, and
  \<^verbatim>\<open>except Exception\<close> turns whatever is raised into \<^verbatim>\<open>None\<close>.
\<close>

definition generate_scene_descriptions_s2 ::
  "(string \<Rightarrow> exn + json) \<Rightarrow> (json \<Rightarrow> json \<Rightarrow> json \<Rightarrow> exn + string) \<Rightarrow>
   json \<Rightarrow> json \<Rightarrow> json \<Rightarrow> exn + json" where
  "generate_scene_descriptions_s2 json_loads scene_chain storyline characters style =
     (case scene_chain storyline characters style of
        Inl e \<Rightarrow> Inr JNull
      | Inr response_text \<Rightarrow>
          (case json_loads (contract_text response_text) of
             Inr scenes_data \<Rightarrow> Inr scenes_data
           | Inl e \<Rightarrow> Inr JNull))"

text \<open>
  \<^verbatim>\<open>generate_scene_descriptions\<close> of \<^verbatim>\<open>Story3.py\<close>: the call of the chain is inside the
  \<^verbatim>\<open>try\<close>, but the clause is \<^verbatim>\<open>except (json.JSONDecodeError, IndexError)\<close>, and its
  handler prints \<^verbatim>\<open>response_text\<close>, which is unbound when the chain itself raised. A
  missing brace is turned into a \<^verbatim>\<open>JSONDecodeError\<close> before the parser is called.
\<close>

definition generate_scene_descriptions_s3 ::
  "(string \<Rightarrow> exn + json) \<Rightarrow> (json \<Rightarrow> json \<Rightarrow> json \<Rightarrow> json \<Rightarrow> exn + string) \<Rightarrow>
   json \<Rightarrow> json \<Rightarrow> json \<Rightarrow> json \<Rightarrow> exn + json" where
  "generate_scene_descriptions_s3 json_loads scene_chain storyline characters style
       background_descriptions =
     (case scene_chain storyline characters style background_descriptions of
        Inl e \<Rightarrow>
          if e = JSONDecodeError \<or> e = IndexError then Inl UnboundLocalError else Inl e
      | Inr response_text \<Rightarrow>
          (let start = str_find response_text (CHR ''{'');
               end' = str_rfind response_text (CHR ''}'') + 1
           in if start = - 1 \<or> end' = 0 then Inr JNull
              else
                (case json_loads (py_slice response_text start end') of
                   Inr scenes_data \<Rightarrow> Inr scenes_data
                 | Inl e \<Rightarrow>
                     if e = JSONDecodeError \<or> e = IndexError then Inr JNull else Inl e)))"

section \<open>The HTTP handlers of \<^verbatim>\<open>new_server.py\<close>\<close>

text \<open>
  A response is the pair Flask receives: the JSON body and the status code
  (\<^verbatim>\<open>jsonify(x)\<close> alone answers with status 200).
\<close>

type_synonym response = "json \<times> nat"

definition jsonify :: "json \<Rightarrow> response" where
  "jsonify body = (body, 200)"

definition handle_error :: "string \<Rightarrow> nat \<Rightarrow> response" where
  "handle_error message status_code = (JObj [(''error'', JStr message)], status_code)"

text \<open>
  \<^verbatim>\<open>k in data\<close> for a string \<open>k\<close>: a key of a dict, an element of a list, a substring of
  a string; any other value is not iterable. \<^verbatim>\<open>all(k in data for k in ks)\<close> stops at the
  first key that is missing.
\<close>

definition is_substring :: "string \<Rightarrow> string \<Rightarrow> bool" where
  "is_substring k s = list_ex (\<lambda>i. take (length k) (drop i s) = k) [0..<Suc (length s)]"

fun py_in :: "string \<Rightarrow> json \<Rightarrow> exn + bool" where
  "py_in k (JObj kvs) = Inr (k \<in> set (map fst kvs))"
| "py_in k (JArr xs) = Inr (JStr k \<in> set xs)"
| "py_in k (JStr s) = Inr (is_substring k s)"
| "py_in k JNull = Inl TypeError"
| "py_in k (JBool b) = Inl TypeError"
| "py_in k (JInt i) = Inl TypeError"

fun all_in :: "string list \<Rightarrow> json \<Rightarrow> exn + bool" where
  "all_in [] data = Inr True"
| "all_in (k # ks) data =
     (case py_in k data of
        Inl e \<Rightarrow> Inl e
      | Inr present \<Rightarrow> if present then all_in ks data else Inr False)"

text \<open>\<^verbatim>\<open>data[k]\<close> and \<^verbatim>\<open>data.get(k, dflt)\<close> for a string \<open>k\<close>.\<close>

fun py_getitem :: "json \<Rightarrow> string \<Rightarrow> exn + json" where
  "py_getitem (JObj kvs) k = (case map_of kvs k of None \<Rightarrow> Inl KeyError | Some v \<Rightarrow> Inr v)"
| "py_getitem JNull k = Inl TypeError"
| "py_getitem (JBool b) k = Inl TypeError"
| "py_getitem (JInt i) k = Inl TypeError"
| "py_getitem (JStr s) k = Inl TypeError"
| "py_getitem (JArr xs) k = Inl TypeError"


text \<open>
  \<^verbatim>\<open>api_generate_story\<close>. The module \<^verbatim>\<open>new\<close> that provides the generator is not among the
  sources, so the generator's method is the parameter \<open>generate\<close>. The handler has no
  \<^verbatim>\<open>try\<close>: an exception leaves it (\<open>Inl\<close>).
\<close>

definition api_generate_story ::
  "(json \<Rightarrow> json \<Rightarrow> json \<Rightarrow> exn + json) \<Rightarrow> json \<Rightarrow> exn + response" where
  "api_generate_story generate data =
     (if \<not> truthy data
      then Inr (handle_error ''Missing required fields: topic, description, style'' 400)
      else
        (case all_in [''topic'', ''description'', ''style''] data of
           Inl e \<Rightarrow> Inl e
         | Inr present \<Rightarrow>
             if \<not> present
             then Inr (handle_error ''Missing required fields: topic, description, style'' 400)
             else
               (case py_getitem data ''topic'' of
                  Inl e \<Rightarrow> Inl e
                | Inr topic \<Rightarrow>
                    (case py_getitem data ''description'' of
                       Inl e \<Rightarrow> Inl e
                     | Inr description \<Rightarrow>
                         (case py_getitem data ''style'' of
                            Inl e \<Rightarrow> Inl e
                          | Inr style \<Rightarrow>
                              (case generate topic description style of
                                 Inl e \<Rightarrow> Inl e
                               | Inr result \<Rightarrow>
                                   Inr (if truthy result then jsonify result
                                        else handle_error
                                          ''Story generation failed on the server.'' 500)))))))"

section \<open>Images, files and the multi-modal capability\<close>

text \<open>
  Image bytes are opaque. \<open>image_open\<close> is \<^verbatim>\<open>Image.open(BytesIO(b))\<close>, which raises on bytes
  that are no image; the type \<open>'img\<close> of a decoded image is left open. The working
  directory is a map from file names to the images saved there: \<^verbatim>\<open>image.save(filename)\<close>
  overwrites what the name held. Where the file name is made from the input (the
  character stage), the save can raise: for a name with a path separator into a
  directory that does not exist, or for a name that leaves \<^verbatim>\<open>.png\<close> without a stem. There
  \<open>save_error\<close> tells what \<^verbatim>\<open>image.save\<close> raises for a file name, if anything. Where the
  file name is a fixed text around a number (backgrounds, scenes), a save fails for
  reasons of the environment only, and neither that nor a failing \<^verbatim>\<open>print\<close> is modelled.

  An answer of \<^verbatim>\<open>genai_client.models.generate_content\<close> is the list
  \<^verbatim>\<open>response.candidates[0].content.parts\<close>, each part with its \<^verbatim>\<open>inline_data\<close> (the bytes,
  or \<^verbatim>\<open>None\<close> for a text part); a call that raises, and an answer whose candidates or parts
  cannot be read, are \<open>Inl\<close>: both happen inside the same \<^verbatim>\<open>try\<close>. For the stages whose
  prompt is one formatted text, the capability is applied to the values the prompt is
  formatted from; the wording around them is not modelled.
\<close>

type_synonym bytes = "nat list"

datatype part = Part (inline_data: "bytes option")

type_synonym 'img files = "string \<rightharpoonup> 'img"

text \<open>
  The loop \<^verbatim>\<open>for part in parts: if part.inline_data: ...\<close> acts on the first part that
  carries data and then returns (or breaks).
\<close>

fun first_inline_data :: "part list \<Rightarrow> bytes option" where
  "first_inline_data [] = None"
| "first_inline_data (p # ps) =
     (case inline_data p of Some b \<Rightarrow> Some b | None \<Rightarrow> first_inline_data ps)"





fun str_nat :: "nat \<Rightarrow> string" where
  "str_nat n =
     (if n < 10 then [char_of (48 + n)] else str_nat (n div 10) @ [char_of (48 + n mod 10)])"

declare str_nat.simps [simp del]

definition str_int :: "int \<Rightarrow> string" where
  "str_int i = (if i < 0 then CHR ''-'' # str_nat (nat (- i)) else str_nat (nat i))"

section \<open>The character-image stage\<close>




section \<open>The background-image stage\<close>








section \<open>The scene composite\<close>

text \<open>
  \<^verbatim>\<open>prompt_parts\<close> is a list of texts and decoded images. In
  \<^verbatim>\<open>generate_scene_image_with_references\<close> it is built before the \<^verbatim>\<open>try\<close>: bytes that do
  not decode raise out of the operation, and no request is made. The loop appends the
  character images one by one.
\<close>

datatype 'img prompt_part = is_PText: PText (text_of: string) | PImage 'img

fun append_character_images ::
  "(bytes \<Rightarrow> exn + 'img) \<Rightarrow> 'img prompt_part list \<Rightarrow> bytes list \<Rightarrow>
   exn + 'img prompt_part list" where
  "append_character_images image_open prompt_parts [] = Inr prompt_parts"
| "append_character_images image_open prompt_parts (img_bytes # rest) =
     (case image_open img_bytes of
        Inl e \<Rightarrow> Inl e
      | Inr img \<Rightarrow> append_character_images image_open (prompt_parts @ [PImage img]) rest)"

text \<open>The list of \<^verbatim>\<open>Story-2.py\<close>.\<close>

definition prompt_parts_s2 ::
  "(bytes \<Rightarrow> exn + 'img) \<Rightarrow> string \<Rightarrow> string \<Rightarrow> bytes list \<Rightarrow> bytes \<Rightarrow>
   exn + 'img prompt_part list" where
  \<open>prompt_parts_s2 image_open scene_description style character_images_bytes
       background_image_byte =
     (case image_open background_image_byte of
        Inl e \<Rightarrow> Inl e
      | Inr background \<Rightarrow>
          append_character_images image_open
            [PText (''Create a final, composite illustration in a '' @ style @ '' style. Scene Description: '' @ [CHR 0x27] @ scene_description @ [CHR 0x27] @ ''.''),
             PText ''Use this image as the definite background:'',
             PImage background,
             PText ''Place these characters consistently within the background:'']
            character_images_bytes)\<close>

text \<open>The list of \<^verbatim>\<open>Story3.py\<close>, with its eleven composition rules.\<close>

definition prompt_parts_s3 ::
  "(bytes \<Rightarrow> exn + 'img) \<Rightarrow> string \<Rightarrow> string \<Rightarrow> bytes list \<Rightarrow> bytes \<Rightarrow>
   exn + 'img prompt_part list" where
  \<open>prompt_parts_s3 image_open scene_description style character_images_bytes
       background_image_byte =
     (case image_open background_image_byte of
        Inl e \<Rightarrow> Inl e
      | Inr background \<Rightarrow>
          append_character_images image_open
            [PText (''Create a high-quality composite illustration in **'' @ style @ ''** style.''),
             PText (''Scene description: "'' @ scene_description @ ''"''),
             PText ([CHR 0x0A] @ ''**Composition & Consistency Rules:**''),
             PText ''1. **Fixed Background**: Use the provided image as the definitive, unchangeable background. Do not add or remove any background elements.'',
             PText ''2. **Accurate Character Placement**: Place the characters **exactly as described**, matching their **locations, actions, and spatial relationships** in the scene description.'',
             PText ''3. **Perspective & Depth**: Match the perspective and scale of the characters to the background. Characters closer to the foreground should appear larger; those farther should appear smaller.'',
             PText (''4. **Lighting Alignment**: Match character lighting and shadows to the background'' @ [CHR 0x27] @ ''s light source (e.g., sunlight direction, ambient lighting).''),
             PText (''5. **Surface Interaction**: Characters must interact with the environment realistically '' @ [CHR 0xC3, CHR 0xA2, CHR 0xE2, CHR 0x82, CHR 0xAC, CHR 0xE2, CHR 0x80, CHR 0x9D] @ '' sitting on chairs, leaning against trees, standing on the ground, etc.''),
             PText ''6. **Shadow Casting**: Add realistic shadows beneath characters to make them feel naturally integrated into the scene.'',
             PText ''7. **No Floating Figures**: Characters must appear firmly grounded, never hovering or clipping through surfaces.'',
             PText ''8. **Character Consistency**: Do NOT swap character identities or positions. Maintain accurate facial features, clothing, and posture throughout scenes.'',
             PText ''9. **No Additional Characters**: Do NOT add any new characters or figures that are not described in the scene.DO NOT Duplicate a character once added into the scene'',
             PText ''10. Utilize the bakcground efficiently to place the characters in a **LOGICAL** way such that it doesnt look disproportionate or out of place.'',
             PText ''11. **Character Continuity Across Scenes:** Maintain the same identity, outfit, hairstyle, and visual style for each character throughout all generated scenes. Do not change or swap appearances between frames.'',
             PText ([CHR 0x0A] @ ''Use this image as the background:''),
             PImage background,
             PText ''Place these characters consistently within the scene:'']
            character_images_bytes)\<close>

text \<open>
  What follows the request, inside the \<^verbatim>\<open>try\<close>: the first part with data is decoded and
  saved under \<open>filename\<close>; everything else ends in \<^verbatim>\<open>return None\<close>.
\<close>

definition save_scene ::
  "(bytes \<Rightarrow> exn + 'img) \<Rightarrow> string \<Rightarrow> exn + part list \<Rightarrow> 'img files \<Rightarrow>
   string option \<times> 'img files" where
  "save_scene image_open filename answer files =
     (case answer of
        Inl e \<Rightarrow> (None, files)
      | Inr parts \<Rightarrow>
          (case first_inline_data parts of
             None \<Rightarrow> (None, files)
           | Some b \<Rightarrow>
               (case image_open b of
                  Inl e \<Rightarrow> (None, files)
                | Inr img \<Rightarrow> (Some filename, files(filename \<mapsto> img)))))"

text \<open>
  \<^verbatim>\<open>generate_scene_image_with_references\<close> of \<^verbatim>\<open>Story-2.py\<close> and of \<^verbatim>\<open>Story3.py\<close>; here
  \<open>genai\<close> receives the prompt parts themselves.
\<close>

definition generate_scene_image_with_references_s2 ::
  "('img prompt_part list \<Rightarrow> exn + part list) \<Rightarrow> (bytes \<Rightarrow> exn + 'img) \<Rightarrow>
   string \<Rightarrow> string \<Rightarrow> bytes list \<Rightarrow> bytes \<Rightarrow> int \<Rightarrow> 'img files \<Rightarrow>
   exn + (string option \<times> 'img files)" where
  "generate_scene_image_with_references_s2 genai image_open scene_description style
       character_images_bytes background_image_byte scene_index files =
     (case prompt_parts_s2 image_open scene_description style character_images_bytes
             background_image_byte of
        Inl e \<Rightarrow> Inl e
      | Inr prompt_parts \<Rightarrow>
          Inr (save_scene image_open (''scene_'' @ str_int (scene_index + 1) @ ''.png'')
                 (genai prompt_parts) files))"

definition generate_scene_image_with_references_s3 ::
  "('img prompt_part list \<Rightarrow> exn + part list) \<Rightarrow> (bytes \<Rightarrow> exn + 'img) \<Rightarrow> string \<Rightarrow>
   string \<Rightarrow> string \<Rightarrow> bytes list \<Rightarrow> bytes \<Rightarrow> int \<Rightarrow> 'img files \<Rightarrow>
   exn + (string option \<times> 'img files)" where
  "generate_scene_image_with_references_s3 genai image_open timestamp scene_description
       style character_images_bytes background_image_byte scene_index files =
     (case prompt_parts_s3 image_open scene_description style character_images_bytes
             background_image_byte of
        Inl e \<Rightarrow> Inl e
      | Inr prompt_parts \<Rightarrow>
          Inr (save_scene image_open
                 (''scene_'' @ str_int (scene_index + 1) @ ''_'' @ timestamp @ ''.png'')
                 (genai prompt_parts) files))"

section \<open>The client pipeline of \<^verbatim>\<open>testing.py\<close>: step 5\<close>

text \<open>
  The body POSTed to \<^verbatim>\<open>/generate-scene-image\<close>, and the loop of step 5 of \<^verbatim>\<open>main\<close> from
  scene \<open>i\<close> on. \<open>read\<close> is \<^verbatim>\<open>read_image_as_base64\<close> (\<open>None\<close> when the file is missing),
  \<open>post\<close> is \<^verbatim>\<open>make_post_request('/generate-scene-image', _)\<close>, whose result is the dict
  the server answered or \<^verbatim>\<open>None\<close>. The loop returns the payloads it posted, in order, and
  \<^verbatim>\<open>scene_image_files\<close>. An empty \<^verbatim>\<open>background_image_files\<close> leaves the loop at once
  (\<^verbatim>\<open>break\<close>); a scene without character images or without a readable background is
  passed over (\<^verbatim>\<open>continue\<close>).
\<close>

record payload =
  scene_description :: json
  style :: string
  character_images_base64 :: "string option list"
  background_image_base64 :: string
  scene_index :: nat

fun scene_image_loop ::
  "(string \<Rightarrow> string option) \<Rightarrow> (payload \<Rightarrow> (string \<times> json) list option) \<Rightarrow> string \<Rightarrow>
   string option list \<Rightarrow> string list \<Rightarrow> nat \<Rightarrow> json list \<Rightarrow> payload list \<Rightarrow> json list \<Rightarrow>
   payload list \<times> json list" where
  "scene_image_loop read post story_style char_images_b64 background_image_files i []
       posted scene_image_files = (posted, scene_image_files)"
| "scene_image_loop read post story_style char_images_b64 background_image_files i
       (desc # rest) posted scene_image_files =
     (if background_image_files = [] then (posted, scene_image_files)
      else
        (let bg_image_b64 =
               read (background_image_files ! (i mod length background_image_files))
         in case bg_image_b64 of
              None \<Rightarrow>
                scene_image_loop read post story_style char_images_b64
                  background_image_files (Suc i) rest posted scene_image_files
            | Some bg \<Rightarrow>
                if char_images_b64 = [] \<or> bg = []
                then scene_image_loop read post story_style char_images_b64
                       background_image_files (Suc i) rest posted scene_image_files
                else
                  (let p = \<lparr>scene_description = desc, style = story_style,
                              character_images_base64 = char_images_b64,
                              background_image_base64 = bg, scene_index = i\<rparr>;
                       result = post p
                   in scene_image_loop read post story_style char_images_b64
                        background_image_files (Suc i) rest (posted @ [p])
                        (case result of
                           None \<Rightarrow> scene_image_files
                         | Some r \<Rightarrow>
                             (case map_of r ''filename'' of
                                None \<Rightarrow> scene_image_files
                              | Some filename \<Rightarrow>
                                  if r \<noteq> [] \<and> truthy filename
                                  then scene_image_files @ [filename]
                                  else scene_image_files)))))"

text \<open>
  Whether scene \<open>i\<close> gets a composite request, and the payload it then carries.
\<close>

definition scene_requested ::
  "(string \<Rightarrow> string option) \<Rightarrow> string option list \<Rightarrow> string list \<Rightarrow> nat \<times> json \<Rightarrow> bool" where
  "scene_requested read char_images_b64 background_image_files item =
     (case read (background_image_files ! (fst item mod length background_image_files)) of
        None \<Rightarrow> False
      | Some bg \<Rightarrow> char_images_b64 \<noteq> [] \<and> bg \<noteq> [])"

definition scene_payload ::
  "(string \<Rightarrow> string option) \<Rightarrow> string \<Rightarrow> string option list \<Rightarrow> string list \<Rightarrow> nat \<times> json \<Rightarrow>
   payload" where
  "scene_payload read story_style char_images_b64 background_image_files item =
     \<lparr>scene_description = snd item, style = story_style,
      character_images_base64 = char_images_b64,
      background_image_base64 =
        (case read (background_image_files ! (fst item mod length background_image_files)) of
           None \<Rightarrow> []
         | Some bg \<Rightarrow> bg),
      scene_index = fst item\<rparr>"

section \<open>Sample collaborators for the concrete runs\<close>

text \<open>
  A finite extract of \<^verbatim>\<open>json.loads\<close>: the three texts listed are parsed as Python parses
  them, and every other text is rejected. The runs below hand it only these texts, the
  empty text and a lone \<^verbatim>\<open>}\<close>, both of which \<^verbatim>\<open>json.loads\<close> rejects with
  \<^verbatim>\<open>JSONDecodeError\<close>.
\<close>

definition json_loads_sample :: "string \<Rightarrow> exn + json" where
  \<open>json_loads_sample s =
     (if s = ''{"storyline":"x","character_descriptions":[]}''
      then Inr (JObj [(''storyline'', JStr ''x''), (''character_descriptions'', JArr [])])
      else if s = ''{}'' then Inr (JObj [])
      else if s = ''{"title": "x"}'' then Inr (JObj [(''title'', JStr ''x'')])
      else Inl JSONDecodeError)\<close>

text \<open>A request body with the three fields of \<^verbatim>\<open>/generate-story\<close>.\<close>

definition story_request :: json where
  "story_request =
     JObj [(''topic'', JStr ''Fire''), (''description'', JStr ''Kael discovers fire''),
           (''style'', JStr ''cave painting'')]"

text \<open>A decoder that accepts every byte string, the image being the bytes.\<close>

definition image_open_any :: "bytes \<Rightarrow> exn + bytes" where
  "image_open_any b = Inr b"



text \<open>
  The batch of the specification's wraparound example: nine scenes and five background
  files, every file readable.
\<close>

definition nine_scenes :: "json list" where
  "nine_scenes =
     [JStr ''Scene 1'', JStr ''Scene 2'', JStr ''Scene 3'', JStr ''Scene 4'', JStr ''Scene 5'',
      JStr ''Scene 6'', JStr ''Scene 7'', JStr ''Scene 8'', JStr ''Scene 9'']"

definition five_backgrounds :: "string list" where
  "five_backgrounds =
     [''background_1.png'', ''background_2.png'', ''background_3.png'', ''background_4.png'',
      ''background_5.png'']"

definition read_sample :: "string \<Rightarrow> string option" where
  "read_sample filename = Some (''b64:'' @ filename)"

section \<open>Contract extraction\<close>

lemma takeWhile_neq_all: "c \<notin> set p \<Longrightarrow> takeWhile (\<lambda>x. x \<noteq> c) p = p"
  by (induction p) auto

lemma str_find_prefix: "c \<notin> set p \<Longrightarrow> str_find (p @ c # r) c = int (length p)"
  unfolding str_find_def by (simp add: takeWhile_tail takeWhile_neq_all)

lemma str_rfind_suffix: "c \<notin> set q \<Longrightarrow> str_rfind (r @ c # q) c = int (length r)"
  unfolding str_rfind_def by (simp add: takeWhile_tail takeWhile_neq_all)

lemma py_slice_middle:
  "py_slice (p @ m @ q) (int (length p)) (int (length p + length m)) = m"
  by (simp add: py_slice_def slice_bound_def)

text \<open>
  A text that opens with a brace and closes with one is cut out exactly when no brace
  opens before it and none closes after it.
\<close>

lemma contract_text_embedded:
  assumes "CHR ''{'' \<notin> set prefix" and "CHR ''}'' \<notin> set suffix"
  shows "contract_text (prefix @ (CHR ''{'' # body @ [CHR ''}'']) @ suffix)
         = CHR ''{'' # body @ [CHR ''}'']"
proof -
  let ?S = "CHR ''{'' # body @ [CHR ''}'']"
  let ?t = "prefix @ ?S @ suffix"
  have f: "str_find ?t (CHR ''{'') = int (length prefix)"
    using str_find_prefix [OF assms(1), of "body @ [CHR ''}''] @ suffix"] by simp
  have "?t = (prefix @ CHR ''{'' # body) @ CHR ''}'' # suffix" by simp
  then have "str_rfind ?t (CHR ''}'') = int (length (prefix @ CHR ''{'' # body))"
    using str_rfind_suffix [OF assms(2), of "prefix @ CHR ''{'' # body"] by simp
  then have r: "str_rfind ?t (CHR ''}'') + 1 = int (length prefix + length ?S)"
    by simp
  show ?thesis
    unfolding contract_text_def Let_def f r by (rule py_slice_middle)
qed

text \<open>
  C2. Let \<open>serialization\<close> be a text that opens with \<^verbatim>\<open>{\<close>, closes with \<^verbatim>\<open>}\<close> and that
  \<^verbatim>\<open>json.loads\<close> parses to the object \<open>J\<close>. When the model answers with that text between
  a prefix and a suffix in which neither brace occurs, the story stage returns \<open>J\<close>.
\<close>

theorem contract_round_trip:
  assumes "CHR ''{'' \<notin> set prefix" and "CHR ''}'' \<notin> set prefix"
    and "CHR ''{'' \<notin> set suffix" and "CHR ''}'' \<notin> set suffix"
    and "serialization = CHR ''{'' # body @ [CHR ''}'']"
    and "json_loads serialization = Inr (JObj J)"
    and "story_chain topic description st = Inr (prefix @ serialization @ suffix)"
  shows "contract_text (prefix @ serialization @ suffix) = serialization \<and>
         generate_story_and_characters json_loads story_chain topic description st
         = Inr (JObj J)"
  using assms contract_text_embedded [of prefix suffix body]
  by (simp add: generate_story_and_characters_def)

text \<open>The example of the specification: commentary before and after the object.\<close>

theorem contract_round_trip_witness:
  \<open>generate_story_and_characters json_loads_sample
     (\<lambda>topic description st.
        Inr (''Here you go:'' @ [CHR 0x0A]
             @ ''{"storyline":"x","character_descriptions":[]}'' @ [CHR 0x0A] @ ''Thanks''))
     (JStr ''Fire'') (JStr ''Kael discovers fire'') (JStr ''cave painting'')
   = Inr (JObj [(''storyline'', JStr ''x''), (''character_descriptions'', JArr [])])\<close>
  using contract_round_trip
    [where prefix = "''Here you go:'' @ [CHR 0x0A]" and suffix = "[CHR 0x0A] @ ''Thanks''"
       and body = \<open>''"storyline":"x","character_descriptions":[]''\<close>
       and serialization = \<open>''{"storyline":"x","character_descriptions":[]}''\<close>
       and json_loads = json_loads_sample
       and J = "[(''storyline'', JStr ''x''), (''character_descriptions'', JArr [])]"
       and story_chain = \<open>\<lambda>topic description st.
        Inr (''Here you go:'' @ [CHR 0x0A]
             @ ''{"storyline":"x","character_descriptions":[]}'' @ [CHR 0x0A] @ ''Thanks'')\<close>
       and topic = "JStr ''Fire''" and description = "JStr ''Kael discovers fire''"
       and st = "JStr ''cave painting''"]
  by (simp add: json_loads_sample_def)

text \<open>
  Without an opening brace \<^verbatim>\<open>find\<close> answers \<open>-1\<close>, and the slice from \<open>-1\<close> holds at most
  the last character; without a closing brace the slice ends at \<open>0\<close>.
\<close>

lemma py_slice_minus_one:
  "py_slice s (- 1) j = [] \<or> (s \<noteq> [] \<and> int (length s) \<le> j \<and> py_slice s (- 1) j = [last s])"
proof (cases "s = []")
  case True
  then show ?thesis by (simp add: py_slice_def)
next
  case False
  then obtain b x where s: "s = b @ [x]" by (metis rev_exhaust)
  have lo: "slice_bound (length s) (- 1) = length b"
    using s by (simp add: slice_bound_def)
  show ?thesis
  proof (cases "int (length s) \<le> j")
    case True
    then show ?thesis using s by (simp add: py_slice_def slice_bound_def)
  next
    case False
    then have "slice_bound (length s) j \<le> length b"
      using s by (auto simp add: slice_bound_def)
    then show ?thesis using lo by (simp add: py_slice_def)
  qed
qed

lemma py_slice_to_zero: "0 \<le> i \<Longrightarrow> py_slice s i 0 = []"
  by (simp add: py_slice_def slice_bound_def)

lemma str_find_nonneg: "c \<in> set s \<Longrightarrow> 0 \<le> str_find s c"
  by (simp add: str_find_def)

lemma str_rfind_last:
  "int (length s) \<le> str_rfind s c + 1 \<Longrightarrow> s \<noteq> [] \<Longrightarrow> last s = c"
  unfolding str_rfind_def
  by (cases s rule: rev_cases) (auto split: if_splits)

lemma contract_text_missing_brace:
  assumes "CHR ''{'' \<notin> set t \<or> CHR ''}'' \<notin> set t"
  shows "contract_text t = [] \<or> contract_text t = ''}''"
proof (cases "CHR ''{'' \<in> set t")
  case True
  with assms have "CHR ''}'' \<notin> set t" by simp
  then have "str_rfind t (CHR ''}'') + 1 = 0" by (simp add: str_rfind_def)
  then show ?thesis
    using py_slice_to_zero [OF str_find_nonneg [OF True], of t]
    by (simp add: contract_text_def)
next
  case False
  then have f: "str_find t (CHR ''{'') = - 1" by (simp add: str_find_def)
  show ?thesis
    using py_slice_minus_one [of t "str_rfind t (CHR ''}'') + 1"] str_rfind_last [of t "CHR ''}''"]
    by (auto simp add: contract_text_def f)
qed

lemma missing_brace_indices:
  assumes "CHR ''{'' \<notin> set t \<or> CHR ''}'' \<notin> set t"
  shows "str_find t (CHR ''{'') = - 1 \<or> str_rfind t (CHR ''}'') + 1 = 0"
  using assms by (auto simp add: str_find_def str_rfind_def)

text \<open>
  C3. When the model's text has no \<^verbatim>\<open>{\<close> or no \<^verbatim>\<open>}\<close>, the story stage returns \<^verbatim>\<open>None\<close>,
  given that \<^verbatim>\<open>json.loads\<close> rejects the empty text and a lone \<^verbatim>\<open>}\<close> (the only two texts
  it can be handed then); the scene-description stage of \<^verbatim>\<open>Story3.py\<close> returns \<^verbatim>\<open>None\<close>
  without calling the parser at all.
\<close>

theorem missing_brace_fails_closed:
  assumes "CHR ''{'' \<notin> set response_text \<or> CHR ''}'' \<notin> set response_text"
    and "json_loads [] = Inl JSONDecodeError"
    and "json_loads ''}'' = Inl JSONDecodeError"
    and "story_chain topic description st = Inr response_text"
    and "scene_chain storyline characters st background_descriptions = Inr response_text"
  shows "generate_story_and_characters json_loads story_chain topic description st
           = Inr JNull \<and>
         generate_scene_descriptions_s3 any_loads scene_chain storyline characters st
           background_descriptions = Inr JNull"
proof
  show "generate_story_and_characters json_loads story_chain topic description st = Inr JNull"
    using contract_text_missing_brace [OF assms(1)] assms(2-4)
    by (auto simp add: generate_story_and_characters_def)
  show "generate_scene_descriptions_s3 any_loads scene_chain storyline characters st
           background_descriptions = Inr JNull"
    using missing_brace_indices [OF assms(1)] assms(5)
    by (auto simp add: generate_scene_descriptions_s3_def Let_def)
qed

theorem missing_brace_fails_closed_witness:
  "generate_story_and_characters json_loads_sample
     (\<lambda>topic description st. Inr ''I cannot write that story }'')
     (JStr ''Fire'') (JStr ''Kael discovers fire'') (JStr ''cave painting'') = Inr JNull \<and>
   generate_scene_descriptions_s3 json_loads_sample
     (\<lambda>storyline characters st background_descriptions.
        Inr ''I cannot write that story }'')
     (JStr ''Once'') (JArr []) (JStr ''cave painting'') (JArr []) = Inr JNull"
  using missing_brace_fails_closed
    [where response_text = "''I cannot write that story }''"
       and json_loads = json_loads_sample and any_loads = json_loads_sample
       and story_chain = "\<lambda>topic description st. Inr ''I cannot write that story }''"
       and scene_chain = "\<lambda>storyline characters st background_descriptions.
        Inr ''I cannot write that story }''"
       and topic = "JStr ''Fire''" and description = "JStr ''Kael discovers fire''"
       and st = "JStr ''cave painting''" and storyline = "JStr ''Once''"
       and characters = "JArr []" and background_descriptions = "JArr []"]
  by (simp add: json_loads_sample_def)

section \<open>Exceptions of the capability\<close>

text \<open>
  C1. An exception \<open>e\<close> raised by the story chain leaves
  \<^verbatim>\<open>generate_story_and_characters\<close> and then \<^verbatim>\<open>api_generate_story\<close>, while the sibling
  \<^verbatim>\<open>generate_scene_descriptions\<close> of \<^verbatim>\<open>Story-2.py\<close> turns the same exception into
  \<^verbatim>\<open>None\<close>. The scene-description stage of \<^verbatim>\<open>Story3.py\<close>, whose \<^verbatim>\<open>except\<close> clause is as
  narrow as the story stage's, lets a transport error out as well.
\<close>

theorem story_stage_propagates_capability_error:
  "generate_story_and_characters json_loads (\<lambda>topic description st. Inl e)
     topic description st = Inl e \<and>
   api_generate_story
     (generate_story_and_characters json_loads (\<lambda>topic description st. Inl e))
     story_request = Inl e \<and>
   generate_scene_descriptions_s2 json_loads (\<lambda>storyline characters st. Inl e)
     storyline characters st = Inr JNull \<and>
   generate_scene_descriptions_s3 json_loads
     (\<lambda>storyline characters st background_descriptions. Inl (OtherException reason))
     storyline characters st background_descriptions = Inl (OtherException reason)"
  by (simp add: generate_story_and_characters_def generate_scene_descriptions_s2_def
      generate_scene_descriptions_s3_def api_generate_story_def story_request_def)

section \<open>The decision of \<^verbatim>\<open>api_generate_story\<close>\<close>

lemma all_in_present:
  assumes "\<forall>k \<in> set ks. map_of kvs k \<noteq> None"
  shows "all_in ks (JObj kvs) = Inr True"
  using assms
proof (induction ks)
  case Nil
  then show ?case by simp
next
  case (Cons k ks)
  then have "k \<in> fst ` set kvs" by (simp add: map_of_eq_None_iff)
  with Cons show ?case by simp
qed

lemma api_generate_story_fields:
  assumes "map_of kvs ''topic'' = Some topic"
    and "map_of kvs ''description'' = Some description"
    and "map_of kvs ''style'' = Some st"
  shows "api_generate_story generate (JObj kvs) =
           (case generate topic description st of
              Inl e \<Rightarrow> Inl e
            | Inr result \<Rightarrow>
                Inr (if truthy result then jsonify result
                     else handle_error ''Story generation failed on the server.'' 500))"
proof -
  have "all_in [''topic'', ''description'', ''style''] (JObj kvs) = Inr True"
    by (rule all_in_present) (simp add: assms)
  moreover have "kvs \<noteq> []" using assms(1) by auto
  ultimately show ?thesis
    by (simp add: api_generate_story_def assms)
qed

text \<open>
  C5, as amended. For a request with the three fields, the handler answers 200 with the
  parsed contract exactly when the value the stage returned is truthy, and 500 otherwise;
  it never looks for \<^verbatim>\<open>storyline\<close> or \<^verbatim>\<open>character_descriptions\<close>.
\<close>

theorem story_success_is_truthiness:
  assumes "map_of kvs ''topic'' = Some topic"
    and "map_of kvs ''description'' = Some description"
    and "map_of kvs ''style'' = Some st"
    and "generate_story_and_characters json_loads story_chain topic description st
         = Inr contract"
  shows "api_generate_story (generate_story_and_characters json_loads story_chain)
           (JObj kvs) =
         Inr (if truthy contract then (contract, 200)
              else (JObj [(''error'', JStr ''Story generation failed on the server.'')], 500))"
  using api_generate_story_fields [OF assms(1-3)] assms(4)
  by (simp add: jsonify_def handle_error_def)

theorem story_success_is_truthiness_witness:
  \<open>api_generate_story
     (generate_story_and_characters json_loads_sample
        (\<lambda>topic description st. Inr ''Here it is: {"title": "x"}''))
     story_request = Inr (JObj [(''title'', JStr ''x'')], 200)\<close>
  using story_success_is_truthiness
    [where kvs = "[(''topic'', JStr ''Fire''), (''description'', JStr ''Kael discovers fire''),
           (''style'', JStr ''cave painting'')]"
       and topic = "JStr ''Fire''" and description = "JStr ''Kael discovers fire''"
       and st = "JStr ''cave painting''" and json_loads = json_loads_sample
       and story_chain = \<open>\<lambda>topic description st. Inr ''Here it is: {"title": "x"}''\<close>
       and contract = "JObj [(''title'', JStr ''x'')]"]
  by (simp add: story_request_def generate_story_and_characters_def json_loads_sample_def
      contract_text_def str_find_def str_rfind_def py_slice_def slice_bound_def)

text \<open>
  A contract with neither \<^verbatim>\<open>storyline\<close> nor \<^verbatim>\<open>character_descriptions\<close> is answered
  with status 200.
\<close>

theorem story_without_storyline_succeeds:
  \<open>api_generate_story
     (generate_story_and_characters json_loads_sample
        (\<lambda>topic description st. Inr ''{"title": "x"}''))
     story_request = Inr (JObj [(''title'', JStr ''x'')], 200) \<and>
   map_of [(''title'', JStr ''x'')] ''storyline'' = None \<and>
   map_of [(''title'', JStr ''x'')] ''character_descriptions'' = None\<close>
  by (simp add: api_generate_story_def story_request_def generate_story_and_characters_def
      json_loads_sample_def contract_text_def str_find_def str_rfind_def py_slice_def
      slice_bound_def jsonify_def)

text \<open>
  C10. For a request with the three fields: when the extracted text parses to the empty
  object, the handler answers 500 with the message of a failed generation; when it
  parses to a non-empty object, the handler answers 200 with that object, whatever its
  keys.
\<close>

theorem empty_contract_is_failure:
  assumes "map_of kvs ''topic'' = Some topic"
    and "map_of kvs ''description'' = Some description"
    and "map_of kvs ''style'' = Some st"
    and "story_chain topic description st = Inr response_text"
  shows "(json_loads (contract_text response_text) = Inr (JObj []) \<longrightarrow>
            api_generate_story (generate_story_and_characters json_loads story_chain)
              (JObj kvs) =
            Inr (JObj [(''error'', JStr ''Story generation failed on the server.'')], 500)) \<and>
         (\<forall>contract. contract \<noteq> [] \<longrightarrow>
            json_loads (contract_text response_text) = Inr (JObj contract) \<longrightarrow>
            api_generate_story (generate_story_and_characters json_loads story_chain)
              (JObj kvs) = Inr (JObj contract, 200))"
  using api_generate_story_fields [OF assms(1-3)] assms(4)
  by (simp add: generate_story_and_characters_def jsonify_def handle_error_def)

theorem empty_contract_is_failure_witness:
  \<open>api_generate_story
     (generate_story_and_characters json_loads_sample
        (\<lambda>topic description st. Inr ''I have nothing: {}''))
     story_request =
     Inr (JObj [(''error'', JStr ''Story generation failed on the server.'')], 500) \<and>
   api_generate_story
     (generate_story_and_characters json_loads_sample
        (\<lambda>topic description st. Inr ''{"title": "x"} Enjoy!''))
     story_request = Inr (JObj [(''title'', JStr ''x'')], 200)\<close>
proof -
  let ?kvs = "[(''topic'', JStr ''Fire''), (''description'', JStr ''Kael discovers fire''),
           (''style'', JStr ''cave painting'')]"
  have c1: "contract_text ''I have nothing: {}'' = ''{}''"
    by (simp add: contract_text_def str_find_def str_rfind_def py_slice_def slice_bound_def)
  have c2: \<open>contract_text ''{"title": "x"} Enjoy!'' = ''{"title": "x"}''\<close>
    by (simp add: contract_text_def str_find_def str_rfind_def py_slice_def slice_bound_def)
  have a: "api_generate_story
     (generate_story_and_characters json_loads_sample
        (\<lambda>topic description st. Inr ''I have nothing: {}'')) (JObj ?kvs) =
     Inr (JObj [(''error'', JStr ''Story generation failed on the server.'')], 500)"
    using empty_contract_is_failure
      [where kvs = ?kvs and topic = "JStr ''Fire''"
         and description = "JStr ''Kael discovers fire''" and st = "JStr ''cave painting''"
         and json_loads = json_loads_sample and response_text = "''I have nothing: {}''"
         and story_chain = "\<lambda>topic description st. Inr ''I have nothing: {}''"]
    by (simp add: c1 json_loads_sample_def)
  have b: \<open>api_generate_story
     (generate_story_and_characters json_loads_sample
        (\<lambda>topic description st. Inr ''{"title": "x"} Enjoy!'')) (JObj ?kvs) =
     Inr (JObj [(''title'', JStr ''x'')], 200)\<close>
    using empty_contract_is_failure
      [where kvs = ?kvs and topic = "JStr ''Fire''"
         and description = "JStr ''Kael discovers fire''" and st = "JStr ''cave painting''"
         and json_loads = json_loads_sample and response_text = \<open>''{"title": "x"} Enjoy!''\<close>
         and story_chain = \<open>\<lambda>topic description st. Inr ''{"title": "x"} Enjoy!''\<close>]
    by (simp add: c2 json_loads_sample_def)
  show ?thesis using a b by (simp add: story_request_def)
qed

section \<open>The background batch\<close>













section \<open>The background of a scene composite\<close>

lemma scene_image_loop_no_background:
  "scene_image_loop read post st char_images_b64 [] i descs posted scene_image_files =
     (posted, scene_image_files)"
  by (cases descs) simp_all

lemma scene_image_loop_posted:
  assumes "background_image_files \<noteq> []"
  shows "fst (scene_image_loop read post st char_images_b64 background_image_files i descs
               posted scene_image_files) =
         posted @
           map (scene_payload read st char_images_b64 background_image_files)
             (filter (scene_requested read char_images_b64 background_image_files)
                (enumerate i descs))"
proof (induction descs arbitrary: i posted scene_image_files)
  case Nil
  then show ?case by simp
next
  case (Cons desc rest)
  show ?case
  proof (cases "read (background_image_files ! (i mod length background_image_files))")
    case None
    then show ?thesis using assms by (simp add: Cons.IH scene_requested_def)
  next
    case (Some bg)
    then show ?thesis using assms
      by (simp add: Cons.IH scene_requested_def scene_payload_def Let_def)
  qed
qed

text \<open>
  C7. With \<open>k > 0\<close> background files, the composite requests that step 5 posts are those
  of the scenes that have character images and a readable background, in order, and the
  request of scene \<open>i\<close> carries the content of the background file at index \<open>i mod k\<close>.
  With no background file, no request is posted.
\<close>

theorem scene_background_wraparound:
  "(background_image_files \<noteq> [] \<longrightarrow>
      fst (scene_image_loop read post st char_images_b64 background_image_files 0 descs
             [] []) =
        map (scene_payload read st char_images_b64 background_image_files)
          (filter (scene_requested read char_images_b64 background_image_files)
             (enumerate 0 descs)) \<and>
      (\<forall>p \<in> set (fst (scene_image_loop read post st char_images_b64 background_image_files
                          0 descs [] [])).
         read (background_image_files ! (scene_index p mod length background_image_files)) =
           Some (background_image_base64 p))) \<and>
   (background_image_files = [] \<longrightarrow>
      scene_image_loop read post st char_images_b64 background_image_files 0 descs [] [] =
        ([], []))"
proof (intro conjI impI)
  assume ne: "background_image_files \<noteq> []"
  show eq: "fst (scene_image_loop read post st char_images_b64 background_image_files 0 descs
             [] []) =
        map (scene_payload read st char_images_b64 background_image_files)
          (filter (scene_requested read char_images_b64 background_image_files)
             (enumerate 0 descs))"
    using scene_image_loop_posted [OF ne, of read post st char_images_b64 0 descs "[]" "[]"]
    by simp
  show "\<forall>p \<in> set (fst (scene_image_loop read post st char_images_b64 background_image_files
                          0 descs [] [])).
         read (background_image_files ! (scene_index p mod length background_image_files)) =
           Some (background_image_base64 p)"
    unfolding eq
    by (auto simp add: scene_requested_def scene_payload_def split: option.splits)
next
  assume "background_image_files = []"
  then show "scene_image_loop read post st char_images_b64 background_image_files 0 descs
      [] [] = ([], [])"
    by (simp add: scene_image_loop_no_background)
qed


text \<open>Nine scenes over five backgrounds: scene index 6 uses background index 1.\<close>

lemma nine_scenes_five_backgrounds:
  "map (\<lambda>p. (scene_index p, background_image_base64 p))
     (map (scene_payload read_sample ''comic'' [Some ''b64:volt.png''] five_backgrounds)
        (filter (scene_requested read_sample [Some ''b64:volt.png''] five_backgrounds)
           (enumerate 0 nine_scenes))) =
   [(0, ''b64:background_1.png''), (1, ''b64:background_2.png''),
    (2, ''b64:background_3.png''), (3, ''b64:background_4.png''),
    (4, ''b64:background_5.png''), (5, ''b64:background_1.png''),
    (6, ''b64:background_2.png''), (7, ''b64:background_3.png''),
    (8, ''b64:background_4.png'')]"
  by code_simp

theorem scene_background_wraparound_witness:
  "map (\<lambda>p. (scene_index p, background_image_base64 p))
     (fst (scene_image_loop read_sample (\<lambda>p. None) ''comic'' [Some ''b64:volt.png'']
             five_backgrounds 0 nine_scenes [] [])) =
   [(0, ''b64:background_1.png''), (1, ''b64:background_2.png''),
    (2, ''b64:background_3.png''), (3, ''b64:background_4.png''),
    (4, ''b64:background_5.png''), (5, ''b64:background_1.png''),
    (6, ''b64:background_2.png''), (7, ''b64:background_3.png''),
    (8, ''b64:background_4.png'')] \<and>
   scene_image_loop read_sample (\<lambda>p. None) ''comic'' [Some ''b64:volt.png''] [] 0
     nine_scenes [] [] = ([], [])"
proof -
  have ne: "five_backgrounds \<noteq> []" by (simp add: five_backgrounds_def)
  have "fst (scene_image_loop read_sample (\<lambda>p. None) ''comic'' [Some ''b64:volt.png'']
             five_backgrounds 0 nine_scenes [] []) =
        map (scene_payload read_sample ''comic'' [Some ''b64:volt.png''] five_backgrounds)
          (filter (scene_requested read_sample [Some ''b64:volt.png''] five_backgrounds)
             (enumerate 0 nine_scenes))"
    using scene_background_wraparound
      [of five_backgrounds read_sample "\<lambda>p. None" "''comic''" "[Some ''b64:volt.png'']"
         nine_scenes] ne
    by blast
  moreover have "scene_image_loop read_sample (\<lambda>p. None) ''comic'' [Some ''b64:volt.png''] []
      0 nine_scenes [] [] = ([], [])"
    using scene_background_wraparound
      [of "[]" read_sample "\<lambda>p. None" "''comic''" "[Some ''b64:volt.png'']" nine_scenes]
    by blast
  ultimately show ?thesis
    by (simp only: nine_scenes_five_backgrounds simp_thms)
qed

section \<open>The prompt parts of a scene composite\<close>

lemma append_character_images_decoded:
  "map image_open bs = map Inr imgs \<Longrightarrow>
   append_character_images image_open prompt_parts bs = Inr (prompt_parts @ map PImage imgs)"
proof (induction bs arbitrary: prompt_parts imgs)
  case Nil
  then show ?case by simp
next
  case (Cons b bs)
  then obtain img rest where imgs: "imgs = img # rest" by (cases imgs) auto
  with Cons.prems have "image_open b = Inr img" and "map image_open bs = map Inr rest"
    by simp_all
  then show ?case using Cons.IH [of rest "prompt_parts @ [PImage img]"] imgs by simp
qed

text \<open>The two lists in closed form, when every image decodes.\<close>

lemma composite_story2:
  assumes "image_open background_image_byte = Inr background"
    and "map image_open character_images_bytes = map Inr character_images"
  shows \<open>prompt_parts_s2 image_open desc st character_images_bytes background_image_byte =
         Inr ([PText (''Create a final, composite illustration in a '' @ st @ '' style. Scene Description: '' @ [CHR 0x27] @ desc @ [CHR 0x27] @ ''.''),
              PText ''Use this image as the definite background:'',
              PImage background,
              PText ''Place these characters consistently within the background:'']
              @ map PImage character_images)\<close>
  unfolding prompt_parts_s2_def
  by (simp add: assms(1) append_character_images_decoded [OF assms(2)])

lemma composite_story3:
  assumes "image_open background_image_byte = Inr background"
    and "map image_open character_images_bytes = map Inr character_images"
  shows \<open>prompt_parts_s3 image_open desc st character_images_bytes background_image_byte =
         Inr ([PText (''Create a high-quality composite illustration in **'' @ st @ ''** style.''),
              PText (''Scene description: "'' @ desc @ ''"''),
              PText ([CHR 0x0A] @ ''**Composition & Consistency Rules:**''),
              PText ''1. **Fixed Background**: Use the provided image as the definitive, unchangeable background. Do not add or remove any background elements.'',
              PText ''2. **Accurate Character Placement**: Place the characters **exactly as described**, matching their **locations, actions, and spatial relationships** in the scene description.'',
              PText ''3. **Perspective & Depth**: Match the perspective and scale of the characters to the background. Characters closer to the foreground should appear larger; those farther should appear smaller.'',
              PText (''4. **Lighting Alignment**: Match character lighting and shadows to the background'' @ [CHR 0x27] @ ''s light source (e.g., sunlight direction, ambient lighting).''),
              PText (''5. **Surface Interaction**: Characters must interact with the environment realistically '' @ [CHR 0xC3, CHR 0xA2, CHR 0xE2, CHR 0x82, CHR 0xAC, CHR 0xE2, CHR 0x80, CHR 0x9D] @ '' sitting on chairs, leaning against trees, standing on the ground, etc.''),
              PText ''6. **Shadow Casting**: Add realistic shadows beneath characters to make them feel naturally integrated into the scene.'',
              PText ''7. **No Floating Figures**: Characters must appear firmly grounded, never hovering or clipping through surfaces.'',
              PText ''8. **Character Consistency**: Do NOT swap character identities or positions. Maintain accurate facial features, clothing, and posture throughout scenes.'',
              PText ''9. **No Additional Characters**: Do NOT add any new characters or figures that are not described in the scene.DO NOT Duplicate a character once added into the scene'',
              PText ''10. Utilize the bakcground efficiently to place the characters in a **LOGICAL** way such that it doesnt look disproportionate or out of place.'',
              PText ''11. **Character Continuity Across Scenes:** Maintain the same identity, outfit, hairstyle, and visual style for each character throughout all generated scenes. Do not change or swap appearances between frames.'',
              PText ([CHR 0x0A] @ ''Use this image as the background:''),
              PImage background,
              PText ''Place these characters consistently within the scene:'']
              @ map PImage character_images)\<close>
  unfolding prompt_parts_s3_def
  by (simp add: assms(1) append_character_images_decoded [OF assms(2)])

text \<open>
  C4, as amended. When the background and the \<open>N\<close> character images decode, the request
  of \<^verbatim>\<open>Story-2.py\<close> carries exactly \<open>4 + N\<close> parts: the scene instruction with the style
  and the scene description, the background-usage instruction, the background image, the
  character-placement instruction, then the character images in their order. The request
  of \<^verbatim>\<open>Story3.py\<close> carries exactly \<open>17 + N\<close> parts: the scene instruction with the style,
  the scene description, the header of the rules, the eleven composition rules, the
  background-usage instruction, the background image, the character-placement
  instruction, then the character images in their order. In both the background image
  stands before every character image, and the capability receives this very list.
\<close>

theorem composite_prompt_order:
  assumes "image_open background_image_byte = Inr background"
    and "map image_open character_images_bytes = map Inr character_images"
  shows
   \<open>(\<exists>ps.
       prompt_parts_s2 image_open desc st character_images_bytes background_image_byte
         = Inr ps \<and>
       ps = [PText (''Create a final, composite illustration in a '' @ st @ '' style. Scene Description: '' @ [CHR 0x27] @ desc @ [CHR 0x27] @ ''.''),
              PText ''Use this image as the definite background:'',
              PImage background,
              PText ''Place these characters consistently within the background:'']
            @ map PImage character_images \<and>
       length ps = 4 + length character_images_bytes \<and>
       generate_scene_image_with_references_s2 genai image_open desc st
         character_images_bytes background_image_byte idx files =
         Inr (save_scene image_open (''scene_'' @ str_int (idx + 1) @ ''.png'')
                (genai ps) files)) \<and>
    (\<exists>ps.
       prompt_parts_s3 image_open desc st character_images_bytes background_image_byte
         = Inr ps \<and>
       ps = [PText (''Create a high-quality composite illustration in **'' @ st @ ''** style.''),
              PText (''Scene description: "'' @ desc @ ''"''),
              PText ([CHR 0x0A] @ ''**Composition & Consistency Rules:**''),
              PText ''1. **Fixed Background**: Use the provided image as the definitive, unchangeable background. Do not add or remove any background elements.'',
              PText ''2. **Accurate Character Placement**: Place the characters **exactly as described**, matching their **locations, actions, and spatial relationships** in the scene description.'',
              PText ''3. **Perspective & Depth**: Match the perspective and scale of the characters to the background. Characters closer to the foreground should appear larger; those farther should appear smaller.'',
              PText (''4. **Lighting Alignment**: Match character lighting and shadows to the background'' @ [CHR 0x27] @ ''s light source (e.g., sunlight direction, ambient lighting).''),
              PText (''5. **Surface Interaction**: Characters must interact with the environment realistically '' @ [CHR 0xC3, CHR 0xA2, CHR 0xE2, CHR 0x82, CHR 0xAC, CHR 0xE2, CHR 0x80, CHR 0x9D] @ '' sitting on chairs, leaning against trees, standing on the ground, etc.''),
              PText ''6. **Shadow Casting**: Add realistic shadows beneath characters to make them feel naturally integrated into the scene.'',
              PText ''7. **No Floating Figures**: Characters must appear firmly grounded, never hovering or clipping through surfaces.'',
              PText ''8. **Character Consistency**: Do NOT swap character identities or positions. Maintain accurate facial features, clothing, and posture throughout scenes.'',
              PText ''9. **No Additional Characters**: Do NOT add any new characters or figures that are not described in the scene.DO NOT Duplicate a character once added into the scene'',
              PText ''10. Utilize the bakcground efficiently to place the characters in a **LOGICAL** way such that it doesnt look disproportionate or out of place.'',
              PText ''11. **Character Continuity Across Scenes:** Maintain the same identity, outfit, hairstyle, and visual style for each character throughout all generated scenes. Do not change or swap appearances between frames.'',
              PText ([CHR 0x0A] @ ''Use this image as the background:''),
              PImage background,
              PText ''Place these characters consistently within the scene:'']
            @ map PImage character_images \<and>
       length ps = 17 + length character_images_bytes \<and>
       generate_scene_image_with_references_s3 genai image_open timestamp desc st
         character_images_bytes background_image_byte idx files =
         Inr (save_scene image_open
                (''scene_'' @ str_int (idx + 1) @ ''_'' @ timestamp @ ''.png'')
                (genai ps) files))\<close>
proof -
  have n: "length character_images = length character_images_bytes"
    using assms(2) by (metis length_map)
  show ?thesis
    by (simp add: composite_story2 [OF assms] composite_story3 [OF assms] n
        generate_scene_image_with_references_s2_def
        generate_scene_image_with_references_s3_def)
qed


theorem composite_prompt_order_witness:
  "prompt_parts_s2 image_open_any ''Volt meets Resi'' ''comic'' [[1], [2]] [0] =
     Inr [PText (''Create a final, composite illustration in a comic style. Scene Description: ''
                 @ [CHR 0x27] @ ''Volt meets Resi'' @ [CHR 0x27] @ ''.''),
          PText ''Use this image as the definite background:'',
          PImage [0],
          PText ''Place these characters consistently within the background:'',
          PImage [1], PImage [2]] \<and>
   (\<exists>ps. prompt_parts_s3 image_open_any ''Volt meets Resi'' ''comic'' [[1], [2]] [0] = Inr ps \<and>
      length ps = 19 \<and>
      ps ! 0 = PText ''Create a high-quality composite illustration in **comic** style.'' \<and>
      ps ! 14 = PText ([CHR 0x0A] @ ''Use this image as the background:'') \<and>
      ps ! 15 = PImage [0] \<and>
      ps ! 16 = PText ''Place these characters consistently within the scene:'' \<and>
      drop 17 ps = [PImage [1], PImage [2]])"
proof -
  have bg: "image_open_any [0] = Inr [0]" by (simp add: image_open_any_def)
  have chars: "map image_open_any [[1], [2]] = map Inr [[1], [2]]"
    by (simp add: image_open_any_def)
  show ?thesis
    using composite_prompt_order [OF bg chars, of "''Volt meets Resi''" "''comic''"
        "\<lambda>ps. Inr []" 0 Map.empty "''20240101120000''"]
    by (elim conjE exE) simp
qed

text \<open>
  A composite call of \<^verbatim>\<open>Story3.py\<close> with one background and two character images sends
  19 parts, not 6; its third part is a text, and the background image is the sixteenth.
\<close>

theorem story3_prompt_has_seventeen_fixed_parts:
  "\<exists>ps. prompt_parts_s3 image_open_any ''Volt meets Resi'' ''comic'' [[1], [2]] [0] = Inr ps \<and>
        length ps = 19 \<and> length ps \<noteq> 4 + length [[1::nat], [2]] \<and>
        ps ! 2 \<noteq> PImage [0] \<and> ps ! 15 = PImage [0]"
  by (simp add: prompt_parts_s3_def image_open_any_def)

section \<open>The file of a character image\<close>






end
